theory Spec2Isabelle
  imports Main
begin

section \<open>Python values, envelopes and the outside world\<close>

text \<open>
  The values that the wrappers put into their result dictionaries. A Python \<open>dict\<close> keeps
  its keys in insertion order, so it is an association list.
\<close>

datatype pyval =
    PNone
  | PBool bool
  | PInt int
  | PStr string
  | PList "pyval list"
  | PDict "(string \<times> pyval) list"

type_synonym envelope = "(string \<times> pyval) list"

text \<open>An exception caught by \<open>except Exception as e\<close> is represented by \<open>str(e)\<close>.\<close>

type_synonym exn = string

text \<open>\<open>d[k] = v\<close> on a Python dictionary: an existing key keeps its place.\<close>

fun dict_set :: "(string \<times> pyval) list \<Rightarrow> string \<Rightarrow> pyval \<Rightarrow> (string \<times> pyval) list" where
  "dict_set [] k v = [(k, v)]"
| "dict_set ((k', v') # d) k v = (if k' = k then (k, v) # d else (k', v') # dict_set d k v)"

definition has_key :: "envelope \<Rightarrow> string \<Rightarrow> bool" where
  "has_key d k = (map_of d k \<noteq> None)"

text \<open>
  Every call that leaves the process is recorded. The clients are the objects the SDK
  constructors return; each is represented by the data it was constructed from.
\<close>

datatype SmsClient = SmsClient string
datatype EmailClient = EmailClient string
datatype CommunicationIdentityClient = CommunicationIdentityClient string
datatype CommunicationTokenCredential = CommunicationTokenCredential string
datatype ChatClient = ChatClient string CommunicationTokenCredential
datatype ChatThreadClient = ChatThreadClient ChatClient string
datatype SecretClient = SecretClient string

datatype call =
    Call_sms_send SmsClient string string string bool "string option"
  | Call_email_begin_send EmailClient pyval
  | Call_poller_result nat
  | Call_create_user_and_token CommunicationIdentityClient "string list"
  | Call_create_chat_thread ChatClient string "(string \<times> string) list"
  | Call_get_chat_thread_client ChatClient string
  | Call_send_message ChatThreadClient string string string
  | Call_list_messages ChatThreadClient
  | Call_SecretClient string
  | Call_get_secret SecretClient string

text \<open>
  The process's view of the outside: the collaborators' own state \<open>ext\<close>, which the
  code never inspects, the calls made so far and the lines printed so far (both oldest
  first). \<open>stdout_error\<close> is the encoding of standard output: for a line with a
  character outside ASCII it gives the text of the \<open>UnicodeEncodeError\<close> that writing the
  line raises, or \<open>None\<close> when the encoding has all its characters.
\<close>

record 'w world =
  ext :: 'w
  calls :: "call list"
  stdout :: "string list"
  stdout_error :: "string \<Rightarrow> exn option"

text \<open>A string is a list of bytes; a byte with the top bit clear is an ASCII character.\<close>

definition ascii :: "string \<Rightarrow> bool" where
  "ascii line = list_all (\<lambda>c. \<not> digit7 c) line"

text \<open>
  \<open>print(line)\<close>: a line of ASCII characters is always written; any other line is
  written if the encoding of standard output allows it, and otherwise nothing is written
  and the call raises.
\<close>

definition print :: "string \<Rightarrow> 'w world \<Rightarrow> exn + 'w world" where
  "print line w =
     (if ascii line then Inr (w\<lparr>stdout := stdout w @ [line]\<rparr>)
      else case stdout_error w line of
             None \<Rightarrow> Inr (w\<lparr>stdout := stdout w @ [line]\<rparr>)
           | Some e \<Rightarrow> Inl e)"

text \<open>
  A call to a collaborator: it is logged, and the collaborator answers from its own
  state, with a value or by raising.
\<close>

definition invoke :: "call \<Rightarrow> ('w \<Rightarrow> (exn + 'a) \<times> 'w) \<Rightarrow> 'w world \<Rightarrow> (exn + 'a) \<times> 'w world" where
  "invoke c f w = (case f (ext w) of (r, x) \<Rightarrow> (r, w\<lparr>ext := x, calls := calls w @ [c]\<rparr>))"

section \<open>The SDK's responses\<close>

record SmsSendResult =
  sms_message_id :: pyval
  sms_to :: pyval
  sms_http_status_code :: pyval
  sms_successful :: pyval

record EmailSendResult =
  email_id :: pyval
  email_status :: pyval

text \<open>
  \<open>user.properties["id"]\<close>, \<open>token_response.token\<close> and
  \<open>token_response.expires_on.isoformat()\<close>. A failing attribute access raises inside
  the same \<open>try\<close> as the call, so it is part of the call's raising answer.
\<close>

record UserAndToken =
  user_properties_id :: pyval
  token_response_token :: pyval
  token_response_expires_on_isoformat :: string

record CreateChatThreadResult =
  chat_thread_id :: pyval
  chat_thread_topic :: pyval
  chat_thread_created_on_isoformat :: string

record SendChatMessageResult =
  result_id :: pyval

text \<open>
  A chat message as \<open>list_messages\<close> yields it. \<open>content\<close>,
  \<open>sender_communication_identifier\<close> and \<open>created_on\<close> may be \<open>None\<close>; the objects
  they hold otherwise are truthy. \<open>message_content_message\<close> is \<open>content.message\<close>,
  \<open>sender_properties\<close> is the identifier's \<open>properties\<close> dictionary and
  \<open>created_on_isoformat\<close> is \<open>created_on.isoformat()\<close>.
\<close>

record ChatMessage =
  message_id :: pyval
  message_type :: pyval
  message_content_message :: "pyval option"
  sender_properties :: "(string \<times> pyval) list option"
  created_on_isoformat :: "string option"

text \<open>
  The lazy sequence \<open>list_messages()\<close> returns: each \<open>next\<close> yields a message, ends
  the iteration, or raises (a page could not be fetched).
\<close>

datatype ItemPaged = Stop | Raise exn | Yield ChatMessage ItemPaged

text \<open>
  The communications platform and the secret store: what each SDK entry point answers.
  The constructors of the platform's clients do not leave the process; they only validate
  their arguments. \<open>new_SecretClient\<close> stands for \<open>DefaultAzureCredential()\<close> followed by
  \<open>SecretClient(vault_url=..., credential=...)\<close>, and \<open>get_secret_value\<close> for
  \<open>get_secret(name).value\<close>. \<open>str_of\<close> is Python's \<open>str()\<close> on a value that the SDK
  returned, as an f-string applies it.
\<close>

record 'w platform =
  SmsClient_from_connection_string :: "string \<Rightarrow> exn + SmsClient"
  sms_send :: "SmsClient \<Rightarrow> string \<Rightarrow> string \<Rightarrow> string \<Rightarrow> bool \<Rightarrow> string option
                 \<Rightarrow> 'w \<Rightarrow> (exn + SmsSendResult) \<times> 'w"
  EmailClient_from_connection_string :: "string \<Rightarrow> exn + EmailClient"
  email_begin_send :: "EmailClient \<Rightarrow> pyval \<Rightarrow> 'w \<Rightarrow> (exn + nat) \<times> 'w"
  poller_result :: "nat \<Rightarrow> 'w \<Rightarrow> (exn + EmailSendResult) \<times> 'w"
  IdentityClient_from_connection_string :: "string \<Rightarrow> exn + CommunicationIdentityClient"
  identity_create_user_and_token :: "CommunicationIdentityClient \<Rightarrow> string list
                 \<Rightarrow> 'w \<Rightarrow> (exn + UserAndToken) \<times> 'w"
  new_CommunicationTokenCredential :: "string \<Rightarrow> exn + CommunicationTokenCredential"
  new_ChatClient :: "string \<Rightarrow> CommunicationTokenCredential \<Rightarrow> exn + ChatClient"
  chat_create_chat_thread :: "ChatClient \<Rightarrow> string \<Rightarrow> (string \<times> string) list
                 \<Rightarrow> 'w \<Rightarrow> (exn + CreateChatThreadResult) \<times> 'w"
  chat_get_chat_thread_client :: "ChatClient \<Rightarrow> string \<Rightarrow> 'w \<Rightarrow> (exn + ChatThreadClient) \<times> 'w"
  thread_send_message :: "ChatThreadClient \<Rightarrow> string \<Rightarrow> string \<Rightarrow> string
                 \<Rightarrow> 'w \<Rightarrow> (exn + SendChatMessageResult) \<times> 'w"
  thread_list_messages :: "ChatThreadClient \<Rightarrow> 'w \<Rightarrow> (exn + ItemPaged) \<times> 'w"
  utcnow_isoformat :: "'w \<Rightarrow> string"
  new_SecretClient :: "string \<Rightarrow> 'w \<Rightarrow> (exn + SecretClient) \<times> 'w"
  get_secret_value :: "SecretClient \<Rightarrow> string \<Rightarrow> 'w \<Rightarrow> (exn + string option) \<times> 'w"
  str_of :: "pyval \<Rightarrow> string"

section \<open>SMS service\<close>

record SMSService =
  sms_client :: SmsClient

definition SMSService_init :: "'w platform \<Rightarrow> string \<Rightarrow> exn + SMSService" where
  "SMSService_init P connection_string =
     (case SmsClient_from_connection_string P connection_string of
        Inl e \<Rightarrow> Inl e
      | Inr c \<Rightarrow> Inr \<lparr>sms_client = c\<rparr>)"

definition send_sms ::
  "'w platform \<Rightarrow> SMSService \<Rightarrow> string \<Rightarrow> string \<Rightarrow> string \<Rightarrow> bool \<Rightarrow> string option
     \<Rightarrow> 'w world \<Rightarrow> envelope \<times> 'w world" where
  "send_sms P self from_number to_number message enable_delivery_report tag w =
     (case invoke (Call_sms_send (sms_client self) from_number to_number message
                     enable_delivery_report tag)
                  (sms_send P (sms_client self) from_number to_number message
                     enable_delivery_report tag) w of
        (Inr response, w') \<Rightarrow>
          ([(''success'', PBool True),
            (''message_id'', sms_message_id response),
            (''to'', sms_to response),
            (''http_status_code'', sms_http_status_code response),
            (''successful'', sms_successful response)], w')
      | (Inl e, w') \<Rightarrow>
          ([(''success'', PBool False), (''error'', PStr e)], w'))"

text \<open>
  The loop of \<open>send_bulk_sms\<close>, with the list \<open>results\<close> as accumulator. The tag is
  not passed on, so each send has \<open>tag = None\<close>.
\<close>

fun send_bulk_sms_loop ::
  "'w platform \<Rightarrow> SMSService \<Rightarrow> string \<Rightarrow> string list \<Rightarrow> string \<Rightarrow> bool
     \<Rightarrow> envelope list \<Rightarrow> 'w world \<Rightarrow> envelope list \<times> 'w world" where
  "send_bulk_sms_loop P self from_number [] message edr results w = (results, w)"
| "send_bulk_sms_loop P self from_number (to_number # rest) message edr results w =
     (case send_sms P self from_number to_number message edr None w of
        (result, w') \<Rightarrow>
          send_bulk_sms_loop P self from_number rest message edr (results @ [result]) w')"

definition send_bulk_sms ::
  "'w platform \<Rightarrow> SMSService \<Rightarrow> string \<Rightarrow> string list \<Rightarrow> string \<Rightarrow> bool
     \<Rightarrow> 'w world \<Rightarrow> envelope list \<times> 'w world" where
  "send_bulk_sms P self from_number to_numbers message enable_delivery_report w =
     send_bulk_sms_loop P self from_number to_numbers message enable_delivery_report [] w"

text \<open>
  The world after single sends, one per recipient and one after the other, each with the
  same sender, text and delivery-report flag and no tag. This is the specification's
  reading of the fan-out, written with \<open>send_sms\<close> alone.
\<close>

fun world_after_single_sends ::
  "'w platform \<Rightarrow> SMSService \<Rightarrow> string \<Rightarrow> string list \<Rightarrow> string \<Rightarrow> bool
     \<Rightarrow> 'w world \<Rightarrow> 'w world" where
  "world_after_single_sends P self from_number [] message edr w = w"
| "world_after_single_sends P self from_number (to_number # rest) message edr w =
     world_after_single_sends P self from_number rest message edr
       (snd (send_sms P self from_number to_number message edr None w))"

section \<open>Email service\<close>

record EmailService =
  email_client :: EmailClient

definition EmailService_init :: "'w platform \<Rightarrow> string \<Rightarrow> exn + EmailService" where
  "EmailService_init P connection_string =
     (case EmailClient_from_connection_string P connection_string of
        Inl e \<Rightarrow> Inl e
      | Inr c \<Rightarrow> Inr \<lparr>email_client = c\<rparr>)"

definition address :: "string \<Rightarrow> pyval" where
  "address addr = PDict [(''address'', PStr addr)]"

text \<open>\<open>{"subject": subject, **content}\<close>: the entries of \<open>content\<close> are set in order.\<close>

definition dict_unpack :: "(string \<times> pyval) list \<Rightarrow> (string \<times> pyval) list \<Rightarrow> (string \<times> pyval) list" where
  "dict_unpack d content = foldl (\<lambda>acc (k, v). dict_set acc k v) d content"

text \<open>
  \<open>if cc:\<close> holds for a list that is neither \<open>None\<close> nor empty, \<open>if reply_to:\<close> for a
  string that is neither \<open>None\<close> nor empty.
\<close>

definition send_email ::
  "'w platform \<Rightarrow> EmailService \<Rightarrow> string \<Rightarrow> string \<Rightarrow> string \<Rightarrow> string \<Rightarrow> bool
     \<Rightarrow> string list option \<Rightarrow> string list option \<Rightarrow> string option
     \<Rightarrow> 'w world \<Rightarrow> envelope \<times> 'w world" where
  "send_email P self sender_address recipient_address subject body is_html cc bcc reply_to w =
     (let content = (if is_html then [(''html'', PStr body)] else [(''plainText'', PStr body)]);
          recipients0 = [(''to'', PList [address recipient_address])];
          recipients1 = (case cc of
                           Some (a # as) \<Rightarrow> dict_set recipients0 ''cc'' (PList (map address (a # as)))
                         | _ \<Rightarrow> recipients0);
          recipients = (case bcc of
                          Some (a # as) \<Rightarrow> dict_set recipients1 ''bcc'' (PList (map address (a # as)))
                        | _ \<Rightarrow> recipients1);
          message0 = [(''senderAddress'', PStr sender_address),
                      (''recipients'', PDict recipients),
                      (''content'', PDict (dict_unpack [(''subject'', PStr subject)] content))];
          message = (case reply_to of
                       Some (c # cs) \<Rightarrow> dict_set message0 ''replyTo'' (PList [address (c # cs)])
                     | _ \<Rightarrow> message0)
      in case invoke (Call_email_begin_send (email_client self) (PDict message))
                     (email_begin_send P (email_client self) (PDict message)) w of
           (Inl e, w') \<Rightarrow> ([(''success'', PBool False), (''error'', PStr e)], w')
         | (Inr poller, w') \<Rightarrow>
             (case invoke (Call_poller_result poller) (poller_result P poller) w' of
                (Inl e, w'') \<Rightarrow> ([(''success'', PBool False), (''error'', PStr e)], w'')
              | (Inr result, w'') \<Rightarrow>
                  ([(''success'', PBool True),
                    (''message_id'', email_id result),
                    (''status'', email_status result)], w'')))"

definition send_html_email ::
  "'w platform \<Rightarrow> EmailService \<Rightarrow> string \<Rightarrow> string \<Rightarrow> string \<Rightarrow> string
     \<Rightarrow> 'w world \<Rightarrow> envelope \<times> 'w world" where
  "send_html_email P self sender_address recipient_address subject html_body w =
     send_email P self sender_address recipient_address subject html_body True None None None w"

section \<open>Chat service\<close>

text \<open>
  \<open>chat_client\<close> is the session's handle: \<open>None\<close> until \<open>initialize_chat_client\<close>
  has run. The field \<open>endpoint\<close> of the class is \<open>chat_endpoint\<close> here.
\<close>

record ChatService =
  chat_endpoint :: string
  identity_client :: CommunicationIdentityClient
  chat_client :: "ChatClient option"

definition ChatService_init :: "'w platform \<Rightarrow> string \<Rightarrow> string \<Rightarrow> exn + ChatService" where
  "ChatService_init P endpoint connection_string =
     (case IdentityClient_from_connection_string P connection_string of
        Inl e \<Rightarrow> Inl e
      | Inr c \<Rightarrow> Inr \<lparr>chat_endpoint = endpoint, identity_client = c, chat_client = None\<rparr>)"

definition create_user_and_token ::
  "'w platform \<Rightarrow> ChatService \<Rightarrow> 'w world \<Rightarrow> envelope \<times> 'w world" where
  "create_user_and_token P self w =
     (case invoke (Call_create_user_and_token (identity_client self) [''chat''])
                  (identity_create_user_and_token P (identity_client self) [''chat'']) w of
        (Inr r, w') \<Rightarrow>
          ([(''success'', PBool True),
            (''user_id'', user_properties_id r),
            (''token'', token_response_token r),
            (''expires_on'', PStr (token_response_expires_on_isoformat r))], w')
      | (Inl e, w') \<Rightarrow>
          ([(''success'', PBool False), (''error'', PStr e)], w'))"

text \<open>
  \<open>initialize_chat_client\<close> has no \<open>try\<close>: a constructor that raises leaves the
  session as it was and the exception reaches the caller.
\<close>

definition initialize_chat_client :: "'w platform \<Rightarrow> ChatService \<Rightarrow> string \<Rightarrow> exn + ChatService" where
  "initialize_chat_client P self access_token =
     (case new_CommunicationTokenCredential P access_token of
        Inl e \<Rightarrow> Inl e
      | Inr credential \<Rightarrow>
          (case new_ChatClient P (chat_endpoint self) credential of
             Inl e \<Rightarrow> Inl e
           | Inr c \<Rightarrow> Inr (self\<lparr>chat_client := Some c\<rparr>)))"

text \<open>\<open>str(n)\<close> for a natural number, as the f-string \<open>f"User-{i+1}"\<close> formats it.\<close>

fun str_nat :: "nat \<Rightarrow> string" where
  "str_nat n = (if n < 10 then [char_of (48 + n)]
                else str_nat (n div 10) @ [char_of (48 + n mod 10)])"

text \<open>
  The list comprehension over \<open>enumerate(participant_ids)\<close>; a participant is its user
  id and its display name.
\<close>

fun participants_from :: "nat \<Rightarrow> string list \<Rightarrow> (string \<times> string) list" where
  "participants_from i [] = []"
| "participants_from i (user_id # rest) =
     (user_id, ''User-'' @ str_nat (i + 1)) # participants_from (i + 1) rest"

definition create_chat_thread ::
  "'w platform \<Rightarrow> ChatService \<Rightarrow> string \<Rightarrow> string list \<Rightarrow> 'w world \<Rightarrow> envelope \<times> 'w world" where
  "create_chat_thread P self topic participant_ids w =
     (case chat_client self of
        None \<Rightarrow> ([(''success'', PBool False), (''error'', PStr ''Chat client not initialized'')], w)
      | Some client \<Rightarrow>
          (let participants = participants_from 0 participant_ids
           in case invoke (Call_create_chat_thread client topic participants)
                          (chat_create_chat_thread P client topic participants) w of
                (Inr r, w') \<Rightarrow>
                  ([(''success'', PBool True),
                    (''thread_id'', chat_thread_id r),
                    (''topic'', chat_thread_topic r),
                    (''created_on'', PStr (chat_thread_created_on_isoformat r))], w')
              | (Inl e, w') \<Rightarrow>
                  ([(''success'', PBool False), (''error'', PStr e)], w')))"

definition send_message ::
  "'w platform \<Rightarrow> ChatService \<Rightarrow> string \<Rightarrow> string \<Rightarrow> string \<Rightarrow> 'w world \<Rightarrow> envelope \<times> 'w world" where
  "send_message P self thread_id content sender_display_name w =
     (case chat_client self of
        None \<Rightarrow> ([(''success'', PBool False), (''error'', PStr ''Chat client not initialized'')], w)
      | Some client \<Rightarrow>
          (case invoke (Call_get_chat_thread_client client thread_id)
                       (chat_get_chat_thread_client P client thread_id) w of
             (Inl e, w') \<Rightarrow> ([(''success'', PBool False), (''error'', PStr e)], w')
           | (Inr thread_client, w') \<Rightarrow>
               (case invoke (Call_send_message thread_client content sender_display_name ''text'')
                            (thread_send_message P thread_client content sender_display_name ''text'') w' of
                  (Inl e, w'') \<Rightarrow> ([(''success'', PBool False), (''error'', PStr e)], w'')
                | (Inr result, w'') \<Rightarrow>
                    ([(''success'', PBool True),
                      (''message_id'', result_id result),
                      (''sent_at'', PStr (utcnow_isoformat P (ext w'')))], w''))))"

text \<open>The dictionary \<open>get_messages\<close> appends for one message.\<close>

definition message_dict :: "ChatMessage \<Rightarrow> pyval" where
  "message_dict message =
     PDict [(''id'', message_id message),
            (''type'', message_type message),
            (''content'', (case message_content_message message of None \<Rightarrow> PNone | Some v \<Rightarrow> v)),
            (''sender_id'', (case sender_properties message of
                               None \<Rightarrow> PNone
                             | Some props \<Rightarrow> (case map_of props ''id'' of None \<Rightarrow> PNone | Some v \<Rightarrow> v))),
            (''created_on'', (case created_on_isoformat message of None \<Rightarrow> PNone | Some s \<Rightarrow> PStr s))]"

text \<open>
  The \<open>for\<close> loop of \<open>get_messages\<close>: the cap is tested after the iterator has
  produced the next message and before it is appended.
\<close>

fun get_messages_loop :: "int \<Rightarrow> ItemPaged \<Rightarrow> pyval list \<Rightarrow> exn + pyval list" where
  "get_messages_loop max_messages Stop messages = Inr messages"
| "get_messages_loop max_messages (Raise e) messages = Inl e"
| "get_messages_loop max_messages (Yield message rest) messages =
     (if int (length messages) \<ge> max_messages then Inr messages
      else get_messages_loop max_messages rest (messages @ [message_dict message]))"

definition get_messages ::
  "'w platform \<Rightarrow> ChatService \<Rightarrow> string \<Rightarrow> int \<Rightarrow> 'w world \<Rightarrow> envelope \<times> 'w world" where
  "get_messages P self thread_id max_messages w =
     (case chat_client self of
        None \<Rightarrow> ([(''success'', PBool False), (''error'', PStr ''Chat client not initialized'')], w)
      | Some client \<Rightarrow>
          (case invoke (Call_get_chat_thread_client client thread_id)
                       (chat_get_chat_thread_client P client thread_id) w of
             (Inl e, w') \<Rightarrow> ([(''success'', PBool False), (''error'', PStr e)], w')
           | (Inr thread_client, w') \<Rightarrow>
               (case invoke (Call_list_messages thread_client)
                            (thread_list_messages P thread_client) w' of
                  (Inl e, w'') \<Rightarrow> ([(''success'', PBool False), (''error'', PStr e)], w'')
                | (Inr it, w'') \<Rightarrow>
                    (case get_messages_loop max_messages it [] of
                       Inl e \<Rightarrow> ([(''success'', PBool False), (''error'', PStr e)], w'')
                     | Inr messages \<Rightarrow>
                         ([(''success'', PBool True),
                           (''messages'', PList messages),
                           (''count'', PInt (int (length messages)))], w'')))))"

text \<open>
  The operations a caller can apply to a chat session, and a session driven through a
  list of them. An exception out of \<open>initialize_chat_client\<close> leaves the session
  unchanged and the caller goes on.
\<close>

datatype chat_op =
    Op_create_user_and_token
  | Op_initialize_chat_client string
  | Op_create_chat_thread string "string list"
  | Op_send_message string string string
  | Op_get_messages string int

fun exec_op :: "'w platform \<Rightarrow> chat_op \<Rightarrow> ChatService \<times> 'w world \<Rightarrow> ChatService \<times> 'w world" where
  "exec_op P Op_create_user_and_token (self, w) = (self, snd (create_user_and_token P self w))"
| "exec_op P (Op_initialize_chat_client access_token) (self, w) =
     (case initialize_chat_client P self access_token of
        Inl e \<Rightarrow> (self, w)
      | Inr self' \<Rightarrow> (self', w))"
| "exec_op P (Op_create_chat_thread topic participant_ids) (self, w) =
     (self, snd (create_chat_thread P self topic participant_ids w))"
| "exec_op P (Op_send_message thread_id content sender_display_name) (self, w) =
     (self, snd (send_message P self thread_id content sender_display_name w))"
| "exec_op P (Op_get_messages thread_id max_messages) (self, w) =
     (self, snd (get_messages P self thread_id max_messages w))"

fun run_ops :: "'w platform \<Rightarrow> chat_op list \<Rightarrow> ChatService \<times> 'w world \<Rightarrow> ChatService \<times> 'w world" where
  "run_ops P [] st = st"
| "run_ops P (op # ops) st = run_ops P ops (exec_op P op st)"

section \<open>The result envelope\<close>

text \<open>
  An envelope is well formed when \<open>success\<close> is present and boolean and \<open>error\<close> is
  present exactly when \<open>success\<close> is \<open>False\<close>.
\<close>

definition well_formed_envelope :: "envelope \<Rightarrow> bool" where
  "well_formed_envelope env =
     (case map_of env ''success'' of
        Some (PBool b) \<Rightarrow> has_key env ''error'' = (\<not> b)
      | _ \<Rightarrow> False)"

section \<open>Configuration\<close>

text \<open>
  \<open>os.environ\<close> is a map from names to values. The emoji that the program prints are
  the bytes of their UTF-8 encoding.
\<close>

type_synonym environ = "string \<Rightarrow> string option"

definition check_mark :: string where
  "check_mark = [CHR 0xE2, CHR 0x9C, CHR 0x85]"

definition warning_sign :: string where
  "warning_sign = [CHR 0xE2, CHR 0x9A, CHR 0xA0, CHR 0xEF, CHR 0xB8, CHR 0x8F]"

definition cross_mark :: string where
  "cross_mark = [CHR 0xE2, CHR 0x9D, CHR 0x8C]"

definition e_mail_symbol :: string where
  "e_mail_symbol = [CHR 0xF0, CHR 0x9F, CHR 0x93, CHR 0xA7]"

record ACSConfiguration =
  connection_string :: "string option"
  endpoint :: "string option"

text \<open>
  The two f-strings that \<open>_load_from_key_vault\<close> prints, for the vault's URL and for
  the exception caught.
\<close>

definition key_vault_loaded_line :: "string \<Rightarrow> string" where
  "key_vault_loaded_line key_vault_url =
     check_mark @ '' Configuration loaded from Key Vault: '' @ key_vault_url"

definition key_vault_warning_line :: "exn \<Rightarrow> string" where
  "key_vault_warning_line e = warning_sign @ '' Could not load from Key Vault: '' @ e"

text \<open>
  \<open>_load_from_key_vault\<close>. The \<open>try\<close> block holds the three accesses to the store, the
  two assignments and the \<open>print\<close> of the success line; \<open>handler\<close> is the \<open>except\<close>
  branch, entered with the object as assigned so far. Its only statement is a \<open>print\<close>,
  and an exception raised there leaves the function.
\<close>

definition load_from_key_vault ::
  "'w platform \<Rightarrow> ACSConfiguration \<Rightarrow> string \<Rightarrow> 'w world
     \<Rightarrow> (exn + ACSConfiguration) \<times> 'w world" where
  "load_from_key_vault P self key_vault_url w =
     (let handler = (\<lambda>self' e w'.
            case print (key_vault_warning_line e) w' of
              Inl e' \<Rightarrow> (Inl e', w')
            | Inr w'' \<Rightarrow> (Inr self', w''))
      in case invoke (Call_SecretClient key_vault_url) (new_SecretClient P key_vault_url) w of
           (Inl e, w1) \<Rightarrow> handler self e w1
         | (Inr secret_client, w1) \<Rightarrow>
             (case invoke (Call_get_secret secret_client ''acs-connection-string'')
                          (get_secret_value P secret_client ''acs-connection-string'') w1 of
                (Inl e, w2) \<Rightarrow> handler self e w2
              | (Inr v1, w2) \<Rightarrow>
                  (case invoke (Call_get_secret secret_client ''acs-endpoint'')
                               (get_secret_value P secret_client ''acs-endpoint'') w2 of
                     (Inl e, w3) \<Rightarrow> handler (self\<lparr>connection_string := v1\<rparr>) e w3
                   | (Inr v2, w3) \<Rightarrow>
                       (case print (key_vault_loaded_line key_vault_url) w3 of
                          Inl e \<Rightarrow> handler (self\<lparr>connection_string := v1, endpoint := v2\<rparr>) e w3
                        | Inr w4 \<Rightarrow>
                            (Inr (self\<lparr>connection_string := v1, endpoint := v2\<rparr>), w4)))))"

text \<open>
  \<open>if not self.connection_string\<close> and \<open>if key_vault_url\<close>: a string is falsy when
  it is \<open>None\<close> or empty.
\<close>

definition truthy :: "string option \<Rightarrow> bool" where
  "truthy v = (case v of None \<Rightarrow> False | Some s \<Rightarrow> s \<noteq> [])"

definition load_configuration ::
  "'w platform \<Rightarrow> environ \<Rightarrow> ACSConfiguration \<Rightarrow> 'w world
     \<Rightarrow> (exn + ACSConfiguration) \<times> 'w world" where
  "load_configuration P env self w =
     (let self1 = self\<lparr>connection_string := env ''ACS_CONNECTION_STRING'',
                        endpoint := env ''ACS_ENDPOINT''\<rparr>
      in if \<not> truthy (connection_string self1) then
           (case env ''KEY_VAULT_URL'' of
              Some (c # cs) \<Rightarrow> load_from_key_vault P self1 (c # cs) w
            | _ \<Rightarrow> (Inr self1, w))
         else (Inr self1, w))"

text \<open>
  The constructor: \<open>Inr\<close> is the object constructed, \<open>Inl e\<close> an exception that leaves
  \<open>__init__\<close>.
\<close>

definition ACSConfiguration_init ::
  "'w platform \<Rightarrow> environ \<Rightarrow> 'w world \<Rightarrow> (exn + ACSConfiguration) \<times> 'w world" where
  "ACSConfiguration_init P env w =
     load_configuration P env \<lparr>connection_string = None, endpoint = None\<rparr> w"

section \<open>The test-email script\<close>

definition sender_domain :: string where
  "sender_domain = ''ded12d28-4098-4503-9e93-c1ef110d16f1.azurecomm.net''"

definition test_email_plainText :: string where
  "test_email_plainText =
    ''Hello!'' @ [CHR 0x0A, CHR 0x0A] @
    ''This is a test email from Azure Communication Services.'' @ [CHR 0x0A, CHR 0x0A] @
    ''Your ACS deployment is working correctly!'' @ [CHR 0x0A, CHR 0x0A] @ ''Best regards,'' @
    [CHR 0x0A] @ ''ACS Sample Application''"

definition test_email_html :: string where
  "test_email_html =
    [CHR 0x0A] @ ''            <html>'' @ [CHR 0x0A] @ ''                <body style='' @
    [CHR 0x22] @ ''font-family: Arial, sans-serif; padding: 20px;'' @ [CHR 0x22] @ ''>'' @
    [CHR 0x0A] @ ''                    <h1 style='' @ [CHR 0x22] @ ''color: #0078d4;'' @
    [CHR 0x22] @ ''>Azure Communication Services</h1>'' @ [CHR 0x0A] @
    ''                    <p>Hello!</p>'' @ [CHR 0x0A] @
    ''                    <p>This is a test email from <strong>Azure Communication Services</strong>.</p>'' @
    [CHR 0x0A] @ ''                    <p style='' @ [CHR 0x22] @ ''color: green;'' @
    [CHR 0x22] @ ''>'' @ [CHR 0xE2, CHR 0x9C, CHR 0x85] @
    '' Your ACS deployment is working correctly!</p>'' @ [CHR 0x0A] @
    ''                    <hr>'' @ [CHR 0x0A] @ ''                    <p style='' @
    [CHR 0x22] @ ''color: gray; font-size: 12px;'' @ [CHR 0x22] @ ''>'' @ [CHR 0x0A] @
    ''                        Sent from: ACS Sample Application<br>'' @ [CHR 0x0A] @
    ''                        Resource: acs-acssoln-dev-lvhkfz'' @ [CHR 0x0A] @
    ''                    </p>'' @ [CHR 0x0A] @ ''                </body>'' @ [CHR 0x0A] @
    ''            </html>'' @ [CHR 0x0A] @ ''            ''"

definition test_email_message :: "string \<Rightarrow> pyval" where
  "test_email_message recipient_email =
     PDict [(''senderAddress'', PStr (''DoNotReply@'' @ sender_domain)),
            (''recipients'', PDict [(''to'', PList [PDict [(''address'', PStr recipient_email)]])]),
            (''content'', PDict [(''subject'', PStr ''Azure Communication Services - Test Email''),
                                 (''plainText'', PStr test_email_plainText),
                                 (''html'', PStr test_email_html)])]"

text \<open>
  The lines that \<open>send_test_email\<close> prints before the send, and the f-string of its
  handler.
\<close>

definition sending_line :: "string \<Rightarrow> string" where
  "sending_line recipient_email = e_mail_symbol @ '' Sending test email to: '' @ recipient_email"

definition from_line :: string where
  "from_line = ''   From: DoNotReply@'' @ sender_domain"

definition failed_line :: "exn \<Rightarrow> string" where
  "failed_line e = cross_mark @ '' Failed to send email: '' @ e"

text \<open>
  \<open>send_test_email\<close> reads the module's global \<open>connection_string\<close>, here the
  argument \<open>conn\<close>. The client's constructor and the first three \<open>print\<close>s are outside
  the \<open>try\<close>, so their exceptions leave the function. \<open>handler\<close> is the \<open>except\<close>
  branch: it catches what the send and the \<open>print\<close>s of the \<open>try\<close> block raise, and
  what its own \<open>print\<close> raises leaves the function. The result of the send holds
  \<open>result['id']\<close> and \<open>result['status']\<close>.
\<close>

definition send_test_email ::
  "'w platform \<Rightarrow> string option \<Rightarrow> string \<Rightarrow> 'w world \<Rightarrow> (exn + unit) \<times> 'w world" where
  "send_test_email P conn recipient_email w =
     (let handler = (\<lambda>e w'.
            case print (failed_line e) w' of
              Inl e' \<Rightarrow> (Inl e', w')
            | Inr w'' \<Rightarrow> (Inr (), w''))
      in case conn of
        Some (c # cs) \<Rightarrow>
          (case EmailClient_from_connection_string P (c # cs) of
             Inl e \<Rightarrow> (Inl e, w)
           | Inr client \<Rightarrow>
               (let message = test_email_message recipient_email
                in case print (sending_line recipient_email) w of
                     Inl e \<Rightarrow> (Inl e, w)
                   | Inr w1 \<Rightarrow>
                  (case print from_line w1 of
                     Inl e \<Rightarrow> (Inl e, w1)
                   | Inr w2 \<Rightarrow>
                  (case invoke (Call_email_begin_send client message)
                               (email_begin_send P client message) w2 of
                     (Inl e, w3) \<Rightarrow> handler e w3
                   | (Inr poller, w3) \<Rightarrow>
                  (case invoke (Call_poller_result poller) (poller_result P poller) w3 of
                     (Inl e, w4) \<Rightarrow> handler e w4
                   | (Inr result, w4) \<Rightarrow>
                  (case print (check_mark @ '' Email sent successfully!'') w4 of
                     Inl e \<Rightarrow> handler e w4
                   | Inr w5 \<Rightarrow>
                  (case print (''   Message ID: '' @ str_of P (email_id result)) w5 of
                     Inl e \<Rightarrow> handler e w5
                   | Inr w6 \<Rightarrow>
                  (case print (''   Status: '' @ str_of P (email_status result)) w6 of
                     Inl e \<Rightarrow> handler e w6
                   | Inr w7 \<Rightarrow> (Inr (), w7)))))))))
      | _ \<Rightarrow>
          (case print (cross_mark @ '' ACS_CONNECTION_STRING environment variable not set'') w of
             Inl e \<Rightarrow> (Inl e, w)
           | Inr w1 \<Rightarrow> (Inr (), w1)))"

text \<open>
  The script as run with \<open>sys.argv = argv\<close>. \<open>Inr n\<close> is the exit status \<open>n\<close>
  (\<open>sys.exit(1)\<close>, or \<open>0\<close> at the end of the script); \<open>Inl e\<close> is an exception that
  nothing caught.
\<close>

definition test_email_main ::
  "'w platform \<Rightarrow> environ \<Rightarrow> string list \<Rightarrow> 'w world \<Rightarrow> (exn + int) \<times> 'w world" where
  "test_email_main P env argv w =
     (let conn = env ''ACS_CONNECTION_STRING''
      in if length argv < 2 then
           (case print ''Usage: python test_email.py <recipient_email>'' w of
              Inl e \<Rightarrow> (Inl e, w)
            | Inr w1 \<Rightarrow>
                (case print ''Example: python test_email.py your.email@example.com'' w1 of
                   Inl e \<Rightarrow> (Inl e, w1)
                 | Inr w2 \<Rightarrow> (Inr 1, w2)))
         else
           (case send_test_email P conn (argv ! 1) w of
              (Inl e, w') \<Rightarrow> (Inl e, w')
            | (Inr u, w') \<Rightarrow> (Inr 0, w')))"

section \<open>A concrete collaborator\<close>

text \<open>
  A lazy sequence that yields the given messages and then ends.
\<close>

fun paged :: "ChatMessage list \<Rightarrow> ItemPaged" where
  "paged [] = Stop"
| "paged (m # ms) = Yield m (paged ms)"

text \<open>
  A platform on which the theorems below are run: its state counts the requests it has
  served. It refuses an SMS to an empty number, an empty access token and an empty
  thread id; every thread holds five messages; the vault at \<open>https://down\<close> cannot be
  reached, the one at \<open>https://empty\<close> holds no secret and the one at
  \<open>https://half\<close> holds only the connection string.
\<close>

definition demo_message :: "nat \<Rightarrow> ChatMessage" where
  "demo_message i =
     \<lparr>message_id = PInt (int i), message_type = PStr ''text'',
      message_content_message = Some (PStr ''hello''),
      sender_properties = Some [(''id'', PStr ''u1'')],
      created_on_isoformat = None\<rparr>"

definition demo_platform :: "nat platform" where
  "demo_platform =
     \<lparr>SmsClient_from_connection_string = (\<lambda>s. Inr (SmsClient s)),
      sms_send = (\<lambda>c f t m e tag n.
        (if t = [] then Inl ''Invalid recipient''
         else Inr \<lparr>sms_message_id = PStr (''id-'' @ t), sms_to = PStr t,
                   sms_http_status_code = PInt 202, sms_successful = PBool True\<rparr>, Suc n)),
      EmailClient_from_connection_string = (\<lambda>s. Inr (EmailClient s)),
      email_begin_send = (\<lambda>c m n. (Inr n, Suc n)),
      poller_result = (\<lambda>p n. (Inr \<lparr>email_id = PStr ''m1'', email_status = PStr ''Succeeded''\<rparr>, n)),
      IdentityClient_from_connection_string = (\<lambda>s. Inr (CommunicationIdentityClient s)),
      identity_create_user_and_token = (\<lambda>c scopes n.
        (Inr \<lparr>user_properties_id = PStr ''u1'', token_response_token = PStr ''tok'',
              token_response_expires_on_isoformat = ''2030-01-01T00:00:00''\<rparr>, Suc n)),
      new_CommunicationTokenCredential = (\<lambda>t.
        if t = [] then Inl ''token must not be empty'' else Inr (CommunicationTokenCredential t)),
      new_ChatClient = (\<lambda>e c. Inr (ChatClient e c)),
      chat_create_chat_thread = (\<lambda>c topic ps n.
        (Inr \<lparr>chat_thread_id = PStr ''th1'', chat_thread_topic = PStr topic,
              chat_thread_created_on_isoformat = ''2030-01-01T00:00:00''\<rparr>, Suc n)),
      chat_get_chat_thread_client = (\<lambda>c tid n.
        (if tid = [] then Inl ''thread_id cannot be None.'' else Inr (ChatThreadClient c tid), n)),
      thread_send_message = (\<lambda>tc content name ty n. (Inr \<lparr>result_id = PStr ''msg1''\<rparr>, Suc n)),
      thread_list_messages = (\<lambda>tc n.
        (Inr (paged [demo_message 1, demo_message 2, demo_message 3, demo_message 4,
                     demo_message 5]), Suc n)),
      utcnow_isoformat = (\<lambda>n. ''2030-01-01T00:00:00''),
      new_SecretClient = (\<lambda>url n.
        (if url = ''https://down'' then Inl ''unreachable'' else Inr (SecretClient url), n)),
      get_secret_value = (\<lambda>sc name n.
        (case sc of SecretClient url \<Rightarrow>
           if url = ''https://empty'' then Inl ''SecretNotFound''
           else if url = ''https://half'' \<and> name = ''acs-endpoint'' then Inl ''SecretNotFound''
           else Inr (Some (name @ ''-value'')), Suc n)),
      str_of = (\<lambda>v. case v of PStr s \<Rightarrow> s | _ \<Rightarrow> ''?'')\<rparr>"

text \<open>
  \<open>demo_world\<close> writes to a standard output that encodes every line (UTF-8);
  \<open>ascii_world\<close> to one that encodes ASCII only.
\<close>

definition demo_world :: "nat world" where
  "demo_world = \<lparr>ext = 0, calls = [], stdout = [], stdout_error = (\<lambda>line. None)\<rparr>"

definition ascii_world :: "nat world" where
  "ascii_world =
     \<lparr>ext = 0, calls = [], stdout = [],
      stdout_error = (\<lambda>line. Some ''ascii codec cannot encode character'')\<rparr>"

text \<open>
  A platform that throttles: it serves the first SMS and refuses every later one.
\<close>

definition throttling_platform :: "nat platform" where
  "throttling_platform =
     demo_platform\<lparr>sms_send := (\<lambda>c f t m e tag n.
        (if 0 < n then Inl ''Too many requests''
         else Inr \<lparr>sms_message_id = PStr (''id-'' @ t), sms_to = PStr t,
                   sms_http_status_code = PInt 202, sms_successful = PBool True\<rparr>, Suc n))\<rparr>"

definition demo_sms :: SMSService where
  "demo_sms = \<lparr>sms_client = SmsClient ''endpoint=https://x;accesskey=y''\<rparr>"

definition demo_session :: ChatService where
  "demo_session =
     \<lparr>chat_endpoint = ''https://x'',
      identity_client = CommunicationIdentityClient ''endpoint=https://x;accesskey=y'',
      chat_client = None\<rparr>"

definition demo_client :: ChatClient where
  "demo_client = ChatClient ''https://x'' (CommunicationTokenCredential ''tok'')"

definition demo_ready :: ChatService where
  "demo_ready = demo_session\<lparr>chat_client := Some demo_client\<rparr>"

section \<open>Bulk SMS fan-out\<close>

lemma send_bulk_sms_loop_acc:
  "send_bulk_sms_loop P self f ns m edr acc w =
     (acc @ fst (send_bulk_sms_loop P self f ns m edr [] w),
      snd (send_bulk_sms_loop P self f ns m edr [] w))"
proof (induction ns arbitrary: acc w)
  case Nil
  show ?case by simp
next
  case (Cons n ns)
  obtain r w' where s: "send_sms P self f n m edr None w = (r, w')"
    by (cases "send_sms P self f n m edr None w")
  show ?case
    using Cons.IH [of "acc @ [r]" w'] Cons.IH [of "[r]" w'] by (simp add: s)
qed

lemma send_bulk_sms_Nil: "send_bulk_sms P self f [] m edr w = ([], w)"
  by (simp add: send_bulk_sms_def)

lemma send_bulk_sms_Cons:
  "send_bulk_sms P self f (n # ns) m edr w =
     (fst (send_sms P self f n m edr None w) #
        fst (send_bulk_sms P self f ns m edr (snd (send_sms P self f n m edr None w))),
      snd (send_bulk_sms P self f ns m edr (snd (send_sms P self f n m edr None w))))"
proof -
  obtain r w' where s: "send_sms P self f n m edr None w = (r, w')"
    by (cases "send_sms P self f n m edr None w")
  show ?thesis
    using send_bulk_sms_loop_acc [of P self f ns m edr "[r]" w']
    by (simp add: send_bulk_sms_def s)
qed

lemma send_bulk_sms_length:
  "length (fst (send_bulk_sms P self f ns m edr w)) = length ns"
  by (induction ns arbitrary: w) (simp_all add: send_bulk_sms_Nil send_bulk_sms_Cons)

lemma send_bulk_sms_nth:
  "i < length ns \<Longrightarrow>
   fst (send_bulk_sms P self f ns m edr w) ! i =
     fst (send_sms P self f (ns ! i) m edr None
            (snd (send_bulk_sms P self f (take i ns) m edr w)))"
proof (induction ns arbitrary: w i)
  case Nil
  then show ?case by simp
next
  case (Cons n ns)
  show ?case
  proof (cases i)
    case 0
    then show ?thesis by (simp add: send_bulk_sms_Cons send_bulk_sms_Nil)
  next
    case (Suc j)
    with Cons.prems have "j < length ns" by simp
    from Cons.IH [OF this] Suc show ?thesis by (simp add: send_bulk_sms_Cons)
  qed
qed

lemma send_sms_calls:
  "calls (snd (send_sms P self f n m edr tag w)) =
     calls w @ [Call_sms_send (sms_client self) f n m edr tag]"
  by (simp add: send_sms_def invoke_def split: prod.splits sum.splits)

lemma send_bulk_sms_calls:
  "calls (snd (send_bulk_sms P self f ns m edr w)) =
     calls w @ map (\<lambda>n. Call_sms_send (sms_client self) f n m edr None) ns"
  by (induction ns arbitrary: w)
     (simp_all add: send_bulk_sms_Nil send_bulk_sms_Cons send_sms_calls)

lemma send_sms_stateless:
  assumes "\<forall>c f n m e t x y. fst (sms_send P c f n m e t x) = fst (sms_send P c f n m e t y)"
  shows "fst (send_sms P self f n m edr tag w) = fst (send_sms P self f n m edr tag w0)"
proof -
  have "fst (sms_send P (sms_client self) f n m edr tag (ext w)) =
        fst (sms_send P (sms_client self) f n m edr tag (ext w0))"
    using assms by blast
  then show ?thesis
    by (auto simp add: send_sms_def invoke_def split: prod.splits sum.splits)
qed

lemma send_bulk_sms_world:
  "snd (send_bulk_sms P self f ns m edr w) = world_after_single_sends P self f ns m edr w"
  by (induction ns arbitrary: w) (simp_all add: send_bulk_sms_Nil send_bulk_sms_Cons)

text \<open>
  C3, as amended. \<open>send_bulk_sms\<close> returns one envelope per recipient, in the
  recipients' order: the \<open>i\<close>-th is the envelope that the single \<open>send_sms\<close> to the
  \<open>i\<close>-th recipient (with no tag) produces when it is made after the single sends to the
  recipients before it, and the world is left as these single sends leave it. The platform
  is called once per recipient, in order, so a failed send stops nothing. If the
  platform's answer to a send does not depend on its state, the list is the list of the
  envelopes that the single sends produce in isolation.
\<close>

theorem send_bulk_sms_envelopes:
  "send_bulk_sms P self f ns m edr w =
     (map (\<lambda>i. fst (send_sms P self f (ns ! i) m edr None
                      (world_after_single_sends P self f (take i ns) m edr w)))
          [0..<length ns],
      world_after_single_sends P self f ns m edr w) \<and>
   calls (snd (send_bulk_sms P self f ns m edr w)) =
     calls w @ map (\<lambda>n. Call_sms_send (sms_client self) f n m edr None) ns \<and>
   ((\<forall>c f n m e t x y. fst (sms_send P c f n m e t x) = fst (sms_send P c f n m e t y)) \<longrightarrow>
    fst (send_bulk_sms P self f ns m edr w) =
      map (\<lambda>n. fst (send_sms P self f n m edr None w)) ns)"
proof (intro conjI impI)
  have "fst (send_bulk_sms P self f ns m edr w) =
     map (\<lambda>i. fst (send_sms P self f (ns ! i) m edr None
                      (world_after_single_sends P self f (take i ns) m edr w)))
         [0..<length ns]"
  proof (rule nth_equalityI)
    show "length (fst (send_bulk_sms P self f ns m edr w)) =
          length (map (\<lambda>i. fst (send_sms P self f (ns ! i) m edr None
                      (world_after_single_sends P self f (take i ns) m edr w)))
                  [0..<length ns])"
      by (simp add: send_bulk_sms_length)
  next
    fix i assume "i < length (fst (send_bulk_sms P self f ns m edr w))"
    then have i: "i < length ns" by (simp add: send_bulk_sms_length)
    then show "fst (send_bulk_sms P self f ns m edr w) ! i =
          map (\<lambda>i. fst (send_sms P self f (ns ! i) m edr None
                      (world_after_single_sends P self f (take i ns) m edr w)))
              [0..<length ns] ! i"
      using send_bulk_sms_nth [OF i, of P self f m edr w]
      by (simp add: send_bulk_sms_world)
  qed
  then show "send_bulk_sms P self f ns m edr w =
     (map (\<lambda>i. fst (send_sms P self f (ns ! i) m edr None
                      (world_after_single_sends P self f (take i ns) m edr w)))
          [0..<length ns],
      world_after_single_sends P self f ns m edr w)"
    by (simp add: prod_eq_iff send_bulk_sms_world)
next
  show "calls (snd (send_bulk_sms P self f ns m edr w)) =
     calls w @ map (\<lambda>n. Call_sms_send (sms_client self) f n m edr None) ns"
    by (rule send_bulk_sms_calls)
next
  assume st: "\<forall>c f n m e t x y. fst (sms_send P c f n m e t x) = fst (sms_send P c f n m e t y)"
  show "fst (send_bulk_sms P self f ns m edr w) =
      map (\<lambda>n. fst (send_sms P self f n m edr None w)) ns"
  proof (rule nth_equalityI)
    show "length (fst (send_bulk_sms P self f ns m edr w)) =
          length (map (\<lambda>n. fst (send_sms P self f n m edr None w)) ns)"
      by (simp add: send_bulk_sms_length)
  next
    fix i assume "i < length (fst (send_bulk_sms P self f ns m edr w))"
    then have i: "i < length ns" by (simp add: send_bulk_sms_length)
    show "fst (send_bulk_sms P self f ns m edr w) ! i =
          map (\<lambda>n. fst (send_sms P self f n m edr None w)) ns ! i"
      using send_bulk_sms_nth [OF i, of P self f m edr w]
            send_sms_stateless [OF st, of self f "ns ! i" m edr None _ w] i
      by simp
  qed
qed

lemma demo_sms_stateless:
  "\<forall>c f n m e t x y. fst (sms_send demo_platform c f n m e t x) = fst (sms_send demo_platform c f n m e t y)"
  by (simp add: demo_platform_def)

lemma demo_send_sms:
  "fst (send_sms demo_platform demo_sms ''+1'' t ''hi'' True None w) =
     (if t = [] then [(''success'', PBool False), (''error'', PStr ''Invalid recipient'')]
      else [(''success'', PBool True), (''message_id'', PStr (''id-'' @ t)), (''to'', PStr t),
            (''http_status_code'', PInt 202), (''successful'', PBool True)])"
  by (simp add: send_sms_def invoke_def demo_platform_def)

lemma throttling_send_sms:
  "send_sms throttling_platform demo_sms ''+1'' t ''hi'' True None w =
     ((if 0 < ext w then [(''success'', PBool False), (''error'', PStr ''Too many requests'')]
       else [(''success'', PBool True), (''message_id'', PStr (''id-'' @ t)), (''to'', PStr t),
             (''http_status_code'', PInt 202), (''successful'', PBool True)]),
      w\<lparr>ext := Suc (ext w),
        calls := calls w @ [Call_sms_send (sms_client demo_sms) ''+1'' t ''hi'' True None]\<rparr>)"
  by (simp add: send_sms_def invoke_def throttling_platform_def)

text \<open>
  A failed send in the middle stops nothing, and on the throttling platform the second
  envelope is the one of a send made after the first.
\<close>

theorem send_bulk_sms_envelopes_witness:
  "fst (send_bulk_sms demo_platform demo_sms ''+1'' [''+2'', [], ''+3''] ''hi'' True demo_world) =
     [[(''success'', PBool True), (''message_id'', PStr ''id-+2''), (''to'', PStr ''+2''),
       (''http_status_code'', PInt 202), (''successful'', PBool True)],
      [(''success'', PBool False), (''error'', PStr ''Invalid recipient'')],
      [(''success'', PBool True), (''message_id'', PStr ''id-+3''), (''to'', PStr ''+3''),
       (''http_status_code'', PInt 202), (''successful'', PBool True)]] \<and>
   fst (send_bulk_sms throttling_platform demo_sms ''+1'' [''+2'', ''+3''] ''hi'' True demo_world) =
     [[(''success'', PBool True), (''message_id'', PStr ''id-+2''), (''to'', PStr ''+2''),
       (''http_status_code'', PInt 202), (''successful'', PBool True)],
      [(''success'', PBool False), (''error'', PStr ''Too many requests'')]]"
proof (rule conjI)
  show "fst (send_bulk_sms demo_platform demo_sms ''+1'' [''+2'', [], ''+3''] ''hi'' True
               demo_world) =
     [[(''success'', PBool True), (''message_id'', PStr ''id-+2''), (''to'', PStr ''+2''),
       (''http_status_code'', PInt 202), (''successful'', PBool True)],
      [(''success'', PBool False), (''error'', PStr ''Invalid recipient'')],
      [(''success'', PBool True), (''message_id'', PStr ''id-+3''), (''to'', PStr ''+3''),
       (''http_status_code'', PInt 202), (''successful'', PBool True)]]"
    using send_bulk_sms_envelopes
            [of demo_platform demo_sms "''+1''" "[''+2'', [], ''+3'']" "''hi''" True demo_world]
          demo_sms_stateless
    by (simp add: demo_send_sms)
next
  have "[0..<length [''+2'', ''+3'']] = [0, Suc 0]"
    by (simp add: upt_rec)
  then show "fst (send_bulk_sms throttling_platform demo_sms ''+1'' [''+2'', ''+3''] ''hi'' True
               demo_world) =
     [[(''success'', PBool True), (''message_id'', PStr ''id-+2''), (''to'', PStr ''+2''),
       (''http_status_code'', PInt 202), (''successful'', PBool True)],
      [(''success'', PBool False), (''error'', PStr ''Too many requests'')]]"
    using send_bulk_sms_envelopes
            [of throttling_platform demo_sms "''+1''" "[''+2'', ''+3'']" "''hi''" True demo_world]
    by (simp add: throttling_send_sms demo_world_def)
qed

text \<open>
  The claim C3 as first stated compares with the single send in isolation. On the
  throttling platform the second envelope of the bulk send is a failure, while the single
  send to the same recipient, made on its own, succeeds.
\<close>

theorem send_bulk_sms_isolation_counterexample:
  "fst (send_bulk_sms throttling_platform demo_sms ''+1'' [''+2'', ''+3''] ''hi'' True demo_world)
     ! 1 =
     [(''success'', PBool False), (''error'', PStr ''Too many requests'')] \<and>
   fst (send_sms throttling_platform demo_sms ''+1'' ''+3'' ''hi'' True None demo_world) =
     [(''success'', PBool True), (''message_id'', PStr ''id-+3''), (''to'', PStr ''+3''),
      (''http_status_code'', PInt 202), (''successful'', PBool True)]"
  by (simp add: send_bulk_sms_Cons send_bulk_sms_Nil throttling_send_sms demo_world_def)

section \<open>Chat operations before the client is ready\<close>

text \<open>
  C2. While the session's \<open>chat_client\<close> is \<open>None\<close>, \<open>create_chat_thread\<close>,
  \<open>send_message\<close> and \<open>get_messages\<close> return the envelope
  \<open>{success: False, error: "Chat client not initialized"}\<close> for all arguments and leave
  the world as it was: no call is made and the platform's state is untouched.
\<close>

theorem chat_client_absent:
  "chat_client self = None \<Longrightarrow>
   create_chat_thread P self topic participant_ids w =
     ([(''success'', PBool False), (''error'', PStr ''Chat client not initialized'')], w) \<and>
   send_message P self thread_id content sender_display_name w =
     ([(''success'', PBool False), (''error'', PStr ''Chat client not initialized'')], w) \<and>
   get_messages P self thread_id max_messages w =
     ([(''success'', PBool False), (''error'', PStr ''Chat client not initialized'')], w)"
  by (simp add: create_chat_thread_def send_message_def get_messages_def)

theorem chat_client_absent_witness:
  "chat_client demo_session = None \<and>
   create_chat_thread demo_platform demo_session ''topic'' [''u1''] demo_world =
     ([(''success'', PBool False), (''error'', PStr ''Chat client not initialized'')], demo_world) \<and>
   send_message demo_platform demo_session ''th1'' ''hello'' ''User'' demo_world =
     ([(''success'', PBool False), (''error'', PStr ''Chat client not initialized'')], demo_world) \<and>
   get_messages demo_platform demo_session ''th1'' 20 demo_world =
     ([(''success'', PBool False), (''error'', PStr ''Chat client not initialized'')], demo_world)"
proof -
  have h: "chat_client demo_session = None" by (simp add: demo_session_def)
  show ?thesis
    using h chat_client_absent [OF h, of demo_platform "''topic''" "[''u1'']" demo_world
                                  "''th1''" "''hello''" "''User''" 20]
    by simp
qed

section \<open>The envelope invariant\<close>

lemma send_sms_well_formed:
  "well_formed_envelope (fst (send_sms P self f t m edr tag w))"
  by (simp add: send_sms_def well_formed_envelope_def has_key_def split: prod.splits sum.splits)

lemma send_email_well_formed:
  "well_formed_envelope
     (fst (send_email P self sender rcpt subject body is_html cc bcc reply_to w))"
  by (simp add: send_email_def Let_def well_formed_envelope_def has_key_def
           split: prod.splits sum.splits)

lemma create_user_and_token_well_formed:
  "well_formed_envelope (fst (create_user_and_token P self w))"
  by (simp add: create_user_and_token_def well_formed_envelope_def has_key_def
           split: prod.splits sum.splits)

lemma create_chat_thread_well_formed:
  "well_formed_envelope (fst (create_chat_thread P self topic participant_ids w))"
  by (simp add: create_chat_thread_def Let_def well_formed_envelope_def has_key_def
           split: option.splits prod.splits sum.splits)

lemma send_message_well_formed:
  "well_formed_envelope (fst (send_message P self thread_id content name w))"
  by (simp add: send_message_def well_formed_envelope_def has_key_def
           split: option.splits prod.splits sum.splits)

lemma get_messages_well_formed:
  "well_formed_envelope (fst (get_messages P self thread_id max_messages w))"
  by (simp add: get_messages_def well_formed_envelope_def has_key_def
           split: option.splits prod.splits sum.splits)

text \<open>
  C1. For every operation that returns an envelope (\<open>send_sms\<close>, \<open>send_email\<close>,
  \<open>create_user_and_token\<close>, \<open>create_chat_thread\<close>, \<open>send_message\<close>,
  \<open>get_messages\<close>), every input and every behaviour of the platform, the envelope has
  the key \<open>success\<close> with a boolean value, and has the key \<open>error\<close> exactly when
  \<open>success\<close> is \<open>False\<close>.
\<close>

theorem envelope_invariant:
  "well_formed_envelope (fst (send_sms P sms from_number to_number message edr tag w)) \<and>
   well_formed_envelope
     (fst (send_email P email sender rcpt subject body is_html cc bcc reply_to w)) \<and>
   well_formed_envelope (fst (create_user_and_token P chat w)) \<and>
   well_formed_envelope (fst (create_chat_thread P chat topic participant_ids w)) \<and>
   well_formed_envelope (fst (send_message P chat thread_id content name w)) \<and>
   well_formed_envelope (fst (get_messages P chat thread_id max_messages w))"
  by (intro conjI send_sms_well_formed send_email_well_formed
        create_user_and_token_well_formed create_chat_thread_well_formed
        send_message_well_formed get_messages_well_formed)

section \<open>Listing messages up to a cap\<close>

lemma get_messages_loop_paged:
  "get_messages_loop k (paged msgs) acc =
     Inr (acc @ map message_dict (take (nat k - length acc) msgs))"
proof (induction msgs arbitrary: acc)
  case Nil
  show ?case by simp
next
  case (Cons m msgs)
  show ?case
  proof (cases "k \<le> int (length acc)")
    case True
    then show ?thesis by simp
  next
    case False
    then have "nat k - length acc = Suc (nat k - Suc (length acc))" by linarith
    with False Cons.IH [of "acc @ [message_dict m]"] show ?thesis by simp
  qed
qed

lemma get_messages_ready:
  assumes "chat_client self = Some client"
    and "chat_get_chat_thread_client P client thread_id (ext w) = (Inr tc, x1)"
    and "thread_list_messages P tc x1 = (Inr it, x2)"
  shows "fst (get_messages P self thread_id k w) =
     (case get_messages_loop k it [] of
        Inl e \<Rightarrow> [(''success'', PBool False), (''error'', PStr e)]
      | Inr messages \<Rightarrow>
          [(''success'', PBool True), (''messages'', PList messages),
           (''count'', PInt (int (length messages)))])"
  using assms by (simp add: get_messages_def invoke_def split: sum.splits)

text \<open>
  C7. On a session whose chat client is set, when the thread client and the message
  iterator are obtained without an exception and the iterator yields the messages
  \<open>msgs\<close> in this order and then ends, \<open>get_messages\<close> with a cap \<open>k \<ge> 0\<close>
  returns a success envelope whose \<open>messages\<close> are built, in the iterator's order, from
  the first \<open>min (length msgs) k\<close> messages and from no other: each entry holds the id and
  the type of its message, the text of its content, the id of its sender and the time of
  its creation, with \<open>None\<close> for what the message lacks. \<open>count\<close> is the number of
  entries.
\<close>

theorem get_messages_cap:
  assumes "chat_client self = Some client"
    and "chat_get_chat_thread_client P client thread_id (ext w) = (Inr tc, x1)"
    and "thread_list_messages P tc x1 = (Inr (paged msgs), x2)"
    and "0 \<le> k"
  shows "fst (get_messages P self thread_id k w) =
     [(''success'', PBool True),
      (''messages'',
       PList (map (\<lambda>message.
                PDict [(''id'', message_id message),
                       (''type'', message_type message),
                       (''content'', (case message_content_message message of
                                        None \<Rightarrow> PNone | Some v \<Rightarrow> v)),
                       (''sender_id'', (case sender_properties message of
                                          None \<Rightarrow> PNone
                                        | Some props \<Rightarrow>
                                            (case map_of props ''id'' of
                                               None \<Rightarrow> PNone | Some v \<Rightarrow> v))),
                       (''created_on'', (case created_on_isoformat message of
                                           None \<Rightarrow> PNone | Some s \<Rightarrow> PStr s))])
              (take (nat k) msgs))),
      (''count'', PInt (int (min (length msgs) (nat k))))]"
proof -
  have "message_dict = (\<lambda>message.
                PDict [(''id'', message_id message),
                       (''type'', message_type message),
                       (''content'', (case message_content_message message of
                                        None \<Rightarrow> PNone | Some v \<Rightarrow> v)),
                       (''sender_id'', (case sender_properties message of
                                          None \<Rightarrow> PNone
                                        | Some props \<Rightarrow>
                                            (case map_of props ''id'' of
                                               None \<Rightarrow> PNone | Some v \<Rightarrow> v))),
                       (''created_on'', (case created_on_isoformat message of
                                           None \<Rightarrow> PNone | Some s \<Rightarrow> PStr s))])"
    by (rule ext) (simp add: message_dict_def)
  then show ?thesis
    by (simp add: get_messages_ready [OF assms(1,2,3)] get_messages_loop_paged)
qed

lemma get_messages_loop_nonpositive:
  "k \<le> 0 \<Longrightarrow> get_messages_loop k it [] = (case it of Raise e \<Rightarrow> Inl e | _ \<Rightarrow> Inr [])"
  by (cases it) simp_all

lemma get_messages_count:
  "map_of (fst (get_messages P self thread_id k w)) ''success'' = Some (PBool True) \<Longrightarrow>
   \<exists>ms. map_of (fst (get_messages P self thread_id k w)) ''messages'' = Some (PList ms) \<and>
        map_of (fst (get_messages P self thread_id k w)) ''count'' = Some (PInt (int (length ms)))"
  by (auto simp add: get_messages_def split: option.splits prod.splits sum.splits)

text \<open>
  C10. In every success envelope of \<open>get_messages\<close> the field \<open>count\<close> is the
  length of the list \<open>messages\<close>. When the iteration takes place (the chat client is
  set, the thread client and the message iterator are obtained) and its first step does
  not raise, a cap \<open>k \<le> 0\<close> gives the success envelope with no messages and
  \<open>count = 0\<close>.
\<close>

theorem get_messages_count_and_nonpositive_cap:
  "(map_of (fst (get_messages P self thread_id k w)) ''success'' = Some (PBool True) \<longrightarrow>
      (\<exists>ms. map_of (fst (get_messages P self thread_id k w)) ''messages'' = Some (PList ms) \<and>
            map_of (fst (get_messages P self thread_id k w)) ''count'' =
              Some (PInt (int (length ms))))) \<and>
   (chat_client self = Some client \<and>
    chat_get_chat_thread_client P client thread_id (ext w) = (Inr tc, x1) \<and>
    thread_list_messages P tc x1 = (Inr it, x2) \<and> (\<forall>e. it \<noteq> Raise e) \<and> k \<le> 0 \<longrightarrow>
      fst (get_messages P self thread_id k w) =
        [(''success'', PBool True), (''messages'', PList []), (''count'', PInt 0)])"
proof (intro conjI impI)
  assume "map_of (fst (get_messages P self thread_id k w)) ''success'' = Some (PBool True)"
  then show "\<exists>ms. map_of (fst (get_messages P self thread_id k w)) ''messages'' = Some (PList ms) \<and>
            map_of (fst (get_messages P self thread_id k w)) ''count'' =
              Some (PInt (int (length ms)))"
    by (rule get_messages_count)
next
  assume a: "chat_client self = Some client \<and>
    chat_get_chat_thread_client P client thread_id (ext w) = (Inr tc, x1) \<and>
    thread_list_messages P tc x1 = (Inr it, x2) \<and> (\<forall>e. it \<noteq> Raise e) \<and> k \<le> 0"
  then have r: "fst (get_messages P self thread_id k w) =
     (case get_messages_loop k it [] of
        Inl e \<Rightarrow> [(''success'', PBool False), (''error'', PStr e)]
      | Inr messages \<Rightarrow>
          [(''success'', PBool True), (''messages'', PList messages),
           (''count'', PInt (int (length messages)))])"
    using get_messages_ready [of self client P thread_id w tc x1 it x2 k] by simp
  from a have "get_messages_loop k it [] = Inr []"
    by (cases it) (simp_all add: get_messages_loop_nonpositive)
  with r show "fst (get_messages P self thread_id k w) =
        [(''success'', PBool True), (''messages'', PList []), (''count'', PInt 0)]"
    by simp
qed

lemma demo_ready_facts:
  "chat_client demo_ready = Some demo_client"
  "chat_get_chat_thread_client demo_platform demo_client ''th1'' (ext demo_world) =
     (Inr (ChatThreadClient demo_client ''th1''), 0)"
  "thread_list_messages demo_platform (ChatThreadClient demo_client ''th1'') 0 =
     (Inr (paged [demo_message 1, demo_message 2, demo_message 3, demo_message 4,
                  demo_message 5]), Suc 0)"
  by (simp_all add: demo_ready_def demo_session_def demo_platform_def demo_world_def)

theorem get_messages_cap_witness:
  "fst (get_messages demo_platform demo_ready ''th1'' 2 demo_world) =
     [(''success'', PBool True),
      (''messages'',
       PList [PDict [(''id'', PInt 1), (''type'', PStr ''text''), (''content'', PStr ''hello''),
                     (''sender_id'', PStr ''u1''), (''created_on'', PNone)],
              PDict [(''id'', PInt 2), (''type'', PStr ''text''), (''content'', PStr ''hello''),
                     (''sender_id'', PStr ''u1''), (''created_on'', PNone)]]),
      (''count'', PInt 2)]"
proof -
  have k: "(0::int) \<le> 2" by simp
  have t: "take (nat 2) [demo_message 1, demo_message 2, demo_message 3, demo_message 4,
                         demo_message 5] = [demo_message 1, demo_message 2]"
    by (simp add: numeral_2_eq_2)
  show ?thesis
    using get_messages_cap [OF demo_ready_facts k] t by (simp add: demo_message_def)
qed

theorem get_messages_count_and_nonpositive_cap_witness:
  "fst (get_messages demo_platform demo_ready ''th1'' 0 demo_world) =
     [(''success'', PBool True), (''messages'', PList []), (''count'', PInt 0)] \<and>
   map_of (fst (get_messages demo_platform demo_ready ''th1'' 0 demo_world)) ''count'' =
     Some (PInt 0)"
proof -
  have it: "\<forall>e. paged [demo_message 1, demo_message 2, demo_message 3, demo_message 4,
                        demo_message 5] \<noteq> Raise e"
    by simp
  have e: "fst (get_messages demo_platform demo_ready ''th1'' 0 demo_world) =
     [(''success'', PBool True), (''messages'', PList []), (''count'', PInt 0)]"
    using get_messages_count_and_nonpositive_cap
            [of demo_platform demo_ready "''th1''" 0 demo_world demo_client
                "ChatThreadClient demo_client ''th1''" 0
                "paged [demo_message 1, demo_message 2, demo_message 3, demo_message 4,
                        demo_message 5]" "Suc 0"]
          demo_ready_facts it
    by simp
  then show ?thesis by simp
qed

section \<open>Printing\<close>

lemma print_Inr: "print line w = Inr w' \<Longrightarrow> w' = w\<lparr>stdout := stdout w @ [line]\<rparr>"
  by (simp add: print_def split: if_splits option.splits)

lemma print_ascii:
  "ascii line \<Longrightarrow> print line w = Inr (w\<lparr>stdout := stdout w @ [line]\<rparr>)"
  by (simp add: print_def)

lemma print_encodable:
  "stdout_error w line = None \<Longrightarrow> print line w = Inr (w\<lparr>stdout := stdout w @ [line]\<rparr>)"
  by (simp add: print_def)

lemma print_unencodable:
  "\<not> ascii line \<Longrightarrow> stdout_error w line = Some e \<Longrightarrow> print line w = Inl e"
  by (simp add: print_def)

lemma key_vault_warning_line_not_ascii: "\<not> ascii (key_vault_warning_line e)"
  by (simp add: ascii_def key_vault_warning_line_def warning_sign_def)

lemma from_line_ascii: "ascii from_line"
  by (simp add: ascii_def from_line_def sender_domain_def)

lemma usage_ascii:
  "ascii ''Usage: python test_email.py <recipient_email>''"
  "ascii ''Example: python test_email.py your.email@example.com''"
  by (simp_all add: ascii_def)

section \<open>Configuration resolution\<close>

text \<open>
  C4. When \<open>ACS_CONNECTION_STRING\<close> is set to a non-empty value, the resolved
  configuration has exactly this value as its connection string and the value of
  \<open>ACS_ENDPOINT\<close> as its endpoint, nothing is raised, and the world is returned as it
  was: the secret store is not consulted, whether \<open>KEY_VAULT_URL\<close> is set or not. If no
  other variable is set, the endpoint is absent.
\<close>

theorem primary_secret_from_environment:
  assumes "env ''ACS_CONNECTION_STRING'' = Some s" and "s \<noteq> []"
  shows "ACSConfiguration_init P env w =
           (Inr \<lparr>connection_string = Some s, endpoint = env ''ACS_ENDPOINT''\<rparr>, w) \<and>
         ((\<forall>k. k \<noteq> ''ACS_CONNECTION_STRING'' \<longrightarrow> env k = None) \<longrightarrow>
            ACSConfiguration_init P env w =
              (Inr \<lparr>connection_string = Some s, endpoint = None\<rparr>, w))"
  using assms by (simp add: ACSConfiguration_init_def load_configuration_def truthy_def)

theorem primary_secret_from_environment_witness:
  "ACSConfiguration_init demo_platform
     [''ACS_CONNECTION_STRING'' \<mapsto> ''endpoint=https://x;accesskey=y''] demo_world =
     (Inr \<lparr>connection_string = Some ''endpoint=https://x;accesskey=y'', endpoint = None\<rparr>,
      demo_world) \<and>
   ACSConfiguration_init demo_platform
     [''ACS_CONNECTION_STRING'' \<mapsto> ''endpoint=https://x;accesskey=y'',
      ''KEY_VAULT_URL'' \<mapsto> ''https://kv''] demo_world =
     (Inr \<lparr>connection_string = Some ''endpoint=https://x;accesskey=y'', endpoint = None\<rparr>,
      demo_world)"
  using primary_secret_from_environment
          [of "[''ACS_CONNECTION_STRING'' \<mapsto> ''endpoint=https://x;accesskey=y'']"
              "''endpoint=https://x;accesskey=y''" demo_platform demo_world]
        primary_secret_from_environment
          [of "[''ACS_CONNECTION_STRING'' \<mapsto> ''endpoint=https://x;accesskey=y'',
                ''KEY_VAULT_URL'' \<mapsto> ''https://kv'']"
              "''endpoint=https://x;accesskey=y''" demo_platform demo_world]
  by simp

text \<open>
  C5, as amended. When neither \<open>ACS_CONNECTION_STRING\<close> nor \<open>KEY_VAULT_URL\<close> is set,
  resolution returns, without raising and without a call, a configuration whose connection
  string is absent and whose endpoint is the value of \<open>ACS_ENDPOINT\<close>, absent when that
  variable is unset.
\<close>

theorem no_secret_no_vault:
  assumes "env ''ACS_CONNECTION_STRING'' = None" and "env ''KEY_VAULT_URL'' = None"
  shows "ACSConfiguration_init P env w =
           (Inr \<lparr>connection_string = None, endpoint = env ''ACS_ENDPOINT''\<rparr>, w)"
  using assms by (simp add: ACSConfiguration_init_def load_configuration_def truthy_def)

theorem no_secret_no_vault_witness:
  "ACSConfiguration_init demo_platform Map.empty demo_world =
     (Inr \<lparr>connection_string = None, endpoint = None\<rparr>, demo_world)"
  using no_secret_no_vault [of Map.empty demo_platform demo_world] by simp

text \<open>
  The claim C5 as first stated asks for both fields to be absent. With only
  \<open>ACS_ENDPOINT\<close> set, the connection string and the vault location are absent and the
  endpoint is present.
\<close>

theorem no_secret_no_vault_counterexample:
  "[''ACS_ENDPOINT'' \<mapsto> ''https://x''] ''ACS_CONNECTION_STRING'' = None \<and>
   [''ACS_ENDPOINT'' \<mapsto> ''https://x''] ''KEY_VAULT_URL'' = None \<and>
   fst (ACSConfiguration_init demo_platform [''ACS_ENDPOINT'' \<mapsto> ''https://x''] demo_world) =
     Inr \<lparr>connection_string = None, endpoint = Some ''https://x''\<rparr>"
  by (simp add: ACSConfiguration_init_def load_configuration_def truthy_def)

lemma load_configuration_fallback:
  assumes "\<not> truthy (env ''ACS_CONNECTION_STRING'')"
    and "env ''KEY_VAULT_URL'' = Some url" and "url \<noteq> []"
  shows "ACSConfiguration_init P env w =
           load_from_key_vault P
             \<lparr>connection_string = env ''ACS_CONNECTION_STRING'',
              endpoint = env ''ACS_ENDPOINT''\<rparr> url w"
  using assms
  by (cases url) (simp_all add: ACSConfiguration_init_def load_configuration_def)

text \<open>
  C6, as amended. When the fallback lookup is taken and an access to the secret store
  raises (constructing the client, fetching \<open>acs-connection-string\<close> or fetching
  \<open>acs-endpoint\<close>), the failure is caught; when standard output can encode the warning
  line, resolution prints this one line, which carries the exception's text, and returns a
  configuration instead of raising. Every field that was not fetched keeps the value read
  from the environment: the endpoint is the value of \<open>ACS_ENDPOINT\<close> (absent when
  unset), the connection string is the falsy value of \<open>ACS_CONNECTION_STRING\<close>; a
  connection string fetched before the failure is kept.
\<close>

theorem key_vault_failure_recovered:
  assumes "\<not> truthy (env ''ACS_CONNECTION_STRING'')"
    and "env ''KEY_VAULT_URL'' = Some url" and "url \<noteq> []"
    and "stdout_error w (key_vault_warning_line e) = None"
  shows
   "(new_SecretClient P url (ext w) = (Inl e, x1) \<longrightarrow>
       ACSConfiguration_init P env w =
         (Inr \<lparr>connection_string = env ''ACS_CONNECTION_STRING'',
               endpoint = env ''ACS_ENDPOINT''\<rparr>,
          w\<lparr>ext := x1, calls := calls w @ [Call_SecretClient url],
            stdout := stdout w @ [key_vault_warning_line e]\<rparr>)) \<and>
    (new_SecretClient P url (ext w) = (Inr sc, x1) \<and>
     get_secret_value P sc ''acs-connection-string'' x1 = (Inl e, x2) \<longrightarrow>
       ACSConfiguration_init P env w =
         (Inr \<lparr>connection_string = env ''ACS_CONNECTION_STRING'',
               endpoint = env ''ACS_ENDPOINT''\<rparr>,
          w\<lparr>ext := x2,
            calls := calls w @ [Call_SecretClient url,
                                Call_get_secret sc ''acs-connection-string''],
            stdout := stdout w @ [key_vault_warning_line e]\<rparr>)) \<and>
    (new_SecretClient P url (ext w) = (Inr sc, x1) \<and>
     get_secret_value P sc ''acs-connection-string'' x1 = (Inr v, x2) \<and>
     get_secret_value P sc ''acs-endpoint'' x2 = (Inl e, x3) \<longrightarrow>
       ACSConfiguration_init P env w =
         (Inr \<lparr>connection_string = v, endpoint = env ''ACS_ENDPOINT''\<rparr>,
          w\<lparr>ext := x3,
            calls := calls w @ [Call_SecretClient url,
                                Call_get_secret sc ''acs-connection-string'',
                                Call_get_secret sc ''acs-endpoint''],
            stdout := stdout w @ [key_vault_warning_line e]\<rparr>))"
  unfolding load_configuration_fallback [OF assms(1,2,3)]
  using assms(4)
  by (simp add: load_from_key_vault_def Let_def invoke_def print_encodable)

lemma demo_world_fields:
  "ext demo_world = 0" "calls demo_world = []" "stdout demo_world = []"
  "stdout_error demo_world line = None"
  by (simp_all add: demo_world_def)

text \<open>
  The three places where the lookup can fail, on the vaults of the concrete platform.
\<close>

theorem key_vault_failure_recovered_witness:
  "ACSConfiguration_init demo_platform [''KEY_VAULT_URL'' \<mapsto> ''https://down''] demo_world =
     (Inr \<lparr>connection_string = None, endpoint = None\<rparr>,
      demo_world\<lparr>ext := 0, calls := [Call_SecretClient ''https://down''],
        stdout := [warning_sign @ '' Could not load from Key Vault: unreachable'']\<rparr>) \<and>
   ACSConfiguration_init demo_platform [''KEY_VAULT_URL'' \<mapsto> ''https://empty''] demo_world =
     (Inr \<lparr>connection_string = None, endpoint = None\<rparr>,
      demo_world\<lparr>ext := 1,
        calls := [Call_SecretClient ''https://empty'',
                  Call_get_secret (SecretClient ''https://empty'') ''acs-connection-string''],
        stdout := [warning_sign @ '' Could not load from Key Vault: SecretNotFound'']\<rparr>) \<and>
   ACSConfiguration_init demo_platform [''KEY_VAULT_URL'' \<mapsto> ''https://half''] demo_world =
     (Inr \<lparr>connection_string = Some ''acs-connection-string-value'', endpoint = None\<rparr>,
      demo_world\<lparr>ext := 2,
        calls := [Call_SecretClient ''https://half'',
                  Call_get_secret (SecretClient ''https://half'') ''acs-connection-string'',
                  Call_get_secret (SecretClient ''https://half'') ''acs-endpoint''],
        stdout := [warning_sign @ '' Could not load from Key Vault: SecretNotFound'']\<rparr>)"
proof (intro conjI)
  have "new_SecretClient demo_platform ''https://down'' (ext demo_world) = (Inl ''unreachable'', 0)"
    by (simp add: demo_platform_def demo_world_fields)
  then show "ACSConfiguration_init demo_platform [''KEY_VAULT_URL'' \<mapsto> ''https://down'']
      demo_world =
     (Inr \<lparr>connection_string = None, endpoint = None\<rparr>,
      demo_world\<lparr>ext := 0, calls := [Call_SecretClient ''https://down''],
        stdout := [warning_sign @ '' Could not load from Key Vault: unreachable'']\<rparr>)"
    using key_vault_failure_recovered
            [where env = "[''KEY_VAULT_URL'' \<mapsto> ''https://down'']" and url = "''https://down''"
               and P = demo_platform and w = demo_world and e = "''unreachable''" and ?x1.0 = 0]
    by (simp add: truthy_def demo_world_fields key_vault_warning_line_def)
next
  have "new_SecretClient demo_platform ''https://empty'' (ext demo_world) =
          (Inr (SecretClient ''https://empty''), 0) \<and>
        get_secret_value demo_platform (SecretClient ''https://empty'') ''acs-connection-string'' 0 =
          (Inl ''SecretNotFound'', 1)"
    by (simp add: demo_platform_def demo_world_fields)
  then show "ACSConfiguration_init demo_platform [''KEY_VAULT_URL'' \<mapsto> ''https://empty'']
      demo_world =
     (Inr \<lparr>connection_string = None, endpoint = None\<rparr>,
      demo_world\<lparr>ext := 1,
        calls := [Call_SecretClient ''https://empty'',
                  Call_get_secret (SecretClient ''https://empty'') ''acs-connection-string''],
        stdout := [warning_sign @ '' Could not load from Key Vault: SecretNotFound'']\<rparr>)"
    using key_vault_failure_recovered
            [where env = "[''KEY_VAULT_URL'' \<mapsto> ''https://empty'']" and url = "''https://empty''"
               and P = demo_platform and w = demo_world and e = "''SecretNotFound''"
               and sc = "SecretClient ''https://empty''" and ?x1.0 = 0 and ?x2.0 = 1]
    by (simp add: truthy_def demo_world_fields key_vault_warning_line_def)
next
  have "new_SecretClient demo_platform ''https://half'' (ext demo_world) =
          (Inr (SecretClient ''https://half''), 0) \<and>
        get_secret_value demo_platform (SecretClient ''https://half'') ''acs-connection-string'' 0 =
          (Inr (Some ''acs-connection-string-value''), 1) \<and>
        get_secret_value demo_platform (SecretClient ''https://half'') ''acs-endpoint'' 1 =
          (Inl ''SecretNotFound'', 2)"
    by (simp add: demo_platform_def demo_world_fields)
  then show "ACSConfiguration_init demo_platform [''KEY_VAULT_URL'' \<mapsto> ''https://half'']
      demo_world =
     (Inr \<lparr>connection_string = Some ''acs-connection-string-value'', endpoint = None\<rparr>,
      demo_world\<lparr>ext := 2,
        calls := [Call_SecretClient ''https://half'',
                  Call_get_secret (SecretClient ''https://half'') ''acs-connection-string'',
                  Call_get_secret (SecretClient ''https://half'') ''acs-endpoint''],
        stdout := [warning_sign @ '' Could not load from Key Vault: SecretNotFound'']\<rparr>)"
    using key_vault_failure_recovered
            [where env = "[''KEY_VAULT_URL'' \<mapsto> ''https://half'']" and url = "''https://half''"
               and P = demo_platform and w = demo_world and e = "''SecretNotFound''"
               and sc = "SecretClient ''https://half''" and ?x1.0 = 0 and ?x2.0 = 1
               and v = "Some ''acs-connection-string-value''" and ?x3.0 = 2]
    by (simp add: truthy_def demo_world_fields key_vault_warning_line_def)
qed

text \<open>
  The claim C6 as first stated asks for the affected fields to be left absent and for no
  exception. With \<open>ACS_ENDPOINT\<close> set and the vault unreachable, the endpoint was not
  fetched and is present: it keeps the value read from the environment. And on a standard
  output that encodes ASCII only, the \<open>print\<close> of the warning line raises inside the
  handler, so resolution raises.
\<close>

theorem key_vault_failure_counterexample:
  "\<not> truthy ([''ACS_ENDPOINT'' \<mapsto> ''https://e'', ''KEY_VAULT_URL'' \<mapsto> ''https://down'']
               ''ACS_CONNECTION_STRING'') \<and>
   new_SecretClient demo_platform ''https://down'' (ext demo_world) = (Inl ''unreachable'', 0) \<and>
   fst (ACSConfiguration_init demo_platform
          [''ACS_ENDPOINT'' \<mapsto> ''https://e'', ''KEY_VAULT_URL'' \<mapsto> ''https://down'']
          demo_world) =
     Inr \<lparr>connection_string = None, endpoint = Some ''https://e''\<rparr> \<and>
   fst (ACSConfiguration_init demo_platform
          [''ACS_ENDPOINT'' \<mapsto> ''https://e'', ''KEY_VAULT_URL'' \<mapsto> ''https://down'']
          ascii_world) =
     Inl ''ascii codec cannot encode character''"
  by (simp add: ACSConfiguration_init_def load_configuration_def truthy_def
        load_from_key_vault_def Let_def invoke_def print_encodable
        print_unencodable [OF key_vault_warning_line_not_ascii]
        demo_platform_def demo_world_def ascii_world_def)

section \<open>The chat session's handle\<close>

lemma exec_op_keeps_client:
  "chat_client (fst st) \<noteq> None \<Longrightarrow> chat_client (fst (exec_op P op st)) \<noteq> None"
  by (cases st; cases op) (auto simp add: initialize_chat_client_def split: sum.splits)

lemma exec_op_other:
  "\<forall>t. op \<noteq> Op_initialize_chat_client t \<Longrightarrow>
   chat_client (fst (exec_op P op st)) = chat_client (fst st)"
  by (cases st; cases op) simp_all

lemma run_ops_keeps_client:
  "chat_client (fst st) \<noteq> None \<Longrightarrow> chat_client (fst (run_ops P ops st)) \<noteq> None"
proof (induction ops arbitrary: st)
  case Nil
  then show ?case by simp
next
  case (Cons op ops)
  from Cons.prems have "chat_client (fst (exec_op P op st)) \<noteq> None"
    by (rule exec_op_keeps_client)
  then have "chat_client (fst (run_ops P ops (exec_op P op st))) \<noteq> None"
    by (rule Cons.IH)
  then show ?case by simp
qed

lemma run_ops_other:
  "\<forall>t. Op_initialize_chat_client t \<notin> set ops \<Longrightarrow>
   chat_client (fst (run_ops P ops st)) = chat_client (fst st)"
proof (induction ops arbitrary: st)
  case Nil
  show ?case by simp
next
  case (Cons op ops)
  then have "\<forall>t. op \<noteq> Op_initialize_chat_client t"
    and "\<forall>t. Op_initialize_chat_client t \<notin> set ops"
    by auto
  then show ?case
    using Cons.IH [of "exec_op P op st"] by (simp add: exec_op_other)
qed

text \<open>
  C8, as amended. Along every sequence of operations on a chat session, a \<open>chat_client\<close>
  that is set stays set: no operation puts it back to \<open>None\<close>. Only
  \<open>initialize_chat_client\<close> assigns it: a sequence without that operation leaves it as it
  was, and every call whose constructors succeed assigns the new client, so the handle may
  be assigned more than once.
\<close>

theorem chat_client_stays_set:
  "(chat_client (fst st) \<noteq> None \<longrightarrow> chat_client (fst (run_ops P ops st)) \<noteq> None) \<and>
   ((\<forall>t. Op_initialize_chat_client t \<notin> set ops) \<longrightarrow>
      chat_client (fst (run_ops P ops st)) = chat_client (fst st)) \<and>
   (new_CommunicationTokenCredential P t = Inr credential \<and>
    new_ChatClient P (chat_endpoint self) credential = Inr c \<longrightarrow>
      exec_op P (Op_initialize_chat_client t) (self, w) = (self\<lparr>chat_client := Some c\<rparr>, w))"
  by (simp add: run_ops_keeps_client run_ops_other initialize_chat_client_def)

theorem chat_client_stays_set_witness:
  "chat_client (fst (run_ops demo_platform
      [Op_get_messages ''th1'' 2, Op_initialize_chat_client [], Op_create_user_and_token,
       Op_send_message ''th1'' ''hello'' ''User'']
      (demo_ready, demo_world))) \<noteq> None \<and>
   chat_client (fst (run_ops demo_platform
      [Op_create_user_and_token, Op_create_chat_thread ''topic'' [''u1'']]
      (demo_session, demo_world))) = None \<and>
   exec_op demo_platform (Op_initialize_chat_client ''tok'') (demo_session, demo_world) =
     (demo_ready, demo_world)"
proof -
  have a: "chat_client (fst (demo_ready, demo_world)) \<noteq> None"
    by (simp add: demo_ready_def)
  have b: "\<forall>t. Op_initialize_chat_client t \<notin>
             set [Op_create_user_and_token, Op_create_chat_thread ''topic'' [''u1'']]"
    by simp
  have c: "new_CommunicationTokenCredential demo_platform ''tok'' =
             Inr (CommunicationTokenCredential ''tok'') \<and>
           new_ChatClient demo_platform (chat_endpoint demo_session)
             (CommunicationTokenCredential ''tok'') = Inr demo_client"
    by (simp add: demo_platform_def demo_session_def demo_client_def)
  have d: "chat_client (fst (demo_session, demo_world)) = None"
    by (simp add: demo_session_def)
  show ?thesis
    using a b c d
      chat_client_stays_set [of "(demo_ready, demo_world)" demo_platform
         "[Op_get_messages ''th1'' 2, Op_initialize_chat_client [], Op_create_user_and_token,
           Op_send_message ''th1'' ''hello'' ''User'']"]
      chat_client_stays_set [of "(demo_session, demo_world)" demo_platform
         "[Op_create_user_and_token, Op_create_chat_thread ''topic'' [''u1'']]"]
      chat_client_stays_set [of _ demo_platform _ "''tok''" "CommunicationTokenCredential ''tok''"
         demo_session demo_client demo_world]
    by (simp add: demo_ready_def)
qed

text \<open>
  The claim C8 as first stated has the handle set exactly once. Two calls of
  \<open>initialize_chat_client\<close> set it twice: after the second call the session holds a
  different client.
\<close>

theorem chat_client_set_once_counterexample:
  "chat_client (fst (run_ops demo_platform [Op_initialize_chat_client ''t1'']
                       (demo_session, demo_world))) =
     Some (ChatClient ''https://x'' (CommunicationTokenCredential ''t1'')) \<and>
   chat_client (fst (run_ops demo_platform
                       [Op_initialize_chat_client ''t1'', Op_initialize_chat_client ''t2'']
                       (demo_session, demo_world))) =
     Some (ChatClient ''https://x'' (CommunicationTokenCredential ''t2''))"
  by (simp add: initialize_chat_client_def demo_platform_def demo_session_def)

section \<open>The test-email script's command line\<close>

lemma send_test_email_calls:
  assumes "EmailClient_from_connection_string P (c # cs) = Inr client"
    and "stdout_error w (sending_line recipient) = None"
  shows "Call_email_begin_send client (test_email_message recipient) \<in>
           set (calls (snd (send_test_email P (Some (c # cs)) recipient w)))"
  using assms
  by (auto simp add: send_test_email_def Let_def print_encodable print_ascii [OF from_line_ascii]
        invoke_def split: prod.splits sum.splits dest!: print_Inr)

lemma test_email_main_world:
  "2 \<le> length argv \<Longrightarrow>
   snd (test_email_main P env argv w) =
     snd (send_test_email P (env ''ACS_CONNECTION_STRING'') (argv ! 1) w)"
  by (simp add: test_email_main_def split: prod.splits sum.splits)

text \<open>
  C9. Run with no positional argument (\<open>sys.argv\<close> shorter than two), the script prints
  the two usage lines and exits with status \<open>1\<close>, and no call has been made: no email is
  sent. Run with one positional argument it goes on to \<open>send_test_email\<close> with that
  argument as the recipient; if the connection string is set, the client can be
  constructed and standard output can encode the line that announces the send, the send to
  that recipient is attempted.
\<close>

theorem test_email_usage:
  "(length argv < 2 \<longrightarrow>
      test_email_main P env argv w =
        (Inr 1, w\<lparr>stdout := stdout w @ [''Usage: python test_email.py <recipient_email>'',
                                       ''Example: python test_email.py your.email@example.com'']\<rparr>) \<and>
      calls (snd (test_email_main P env argv w)) = calls w) \<and>
   (length argv = 2 \<longrightarrow>
      test_email_main P env argv w =
        (case send_test_email P (env ''ACS_CONNECTION_STRING'') (argv ! 1) w of
           (Inl e, w') \<Rightarrow> (Inl e, w')
         | (Inr u, w') \<Rightarrow> (Inr 0, w')) \<and>
      (env ''ACS_CONNECTION_STRING'' = Some (c # cs) \<and>
       EmailClient_from_connection_string P (c # cs) = Inr client \<and>
       stdout_error w (sending_line (argv ! 1)) = None \<longrightarrow>
         Call_email_begin_send client (test_email_message (argv ! 1)) \<in>
           set (calls (snd (test_email_main P env argv w)))))"
proof (intro conjI impI)
  assume "length argv < 2"
  then show "test_email_main P env argv w =
        (Inr 1, w\<lparr>stdout := stdout w @ [''Usage: python test_email.py <recipient_email>'',
                                       ''Example: python test_email.py your.email@example.com'']\<rparr>)"
    by (simp add: test_email_main_def print_ascii [OF usage_ascii(1)]
          print_ascii [OF usage_ascii(2)])
next
  assume "length argv < 2"
  then show "calls (snd (test_email_main P env argv w)) = calls w"
    by (simp add: test_email_main_def print_ascii [OF usage_ascii(1)]
          print_ascii [OF usage_ascii(2)])
next
  assume "length argv = 2"
  then show "test_email_main P env argv w =
        (case send_test_email P (env ''ACS_CONNECTION_STRING'') (argv ! 1) w of
           (Inl e, w') \<Rightarrow> (Inl e, w')
         | (Inr u, w') \<Rightarrow> (Inr 0, w'))"
    by (simp add: test_email_main_def)
next
  assume l: "length argv = 2"
    and a: "env ''ACS_CONNECTION_STRING'' = Some (c # cs) \<and>
       EmailClient_from_connection_string P (c # cs) = Inr client \<and>
       stdout_error w (sending_line (argv ! 1)) = None"
  from a have "Call_email_begin_send client (test_email_message (argv ! 1)) \<in>
           set (calls (snd (send_test_email P (Some (c # cs)) (argv ! 1) w)))"
    by (intro send_test_email_calls) simp_all
  with l a show "Call_email_begin_send client (test_email_message (argv ! 1)) \<in>
           set (calls (snd (test_email_main P env argv w)))"
    by (simp add: test_email_main_world)
qed

theorem test_email_usage_witness:
  "test_email_main demo_platform [''ACS_CONNECTION_STRING'' \<mapsto> ''cs''] [''test_email.py'']
     demo_world =
     (Inr 1, demo_world\<lparr>stdout := [''Usage: python test_email.py <recipient_email>'',
                                    ''Example: python test_email.py your.email@example.com'']\<rparr>) \<and>
   Call_email_begin_send (EmailClient ''cs'') (test_email_message ''a@b.c'') \<in>
     set (calls (snd (test_email_main demo_platform [''ACS_CONNECTION_STRING'' \<mapsto> ''cs'']
                        [''test_email.py'', ''a@b.c''] demo_world)))"
proof -
  have a: "length [''test_email.py''] < 2" by simp
  have b: "length [''test_email.py'', ''a@b.c''] = 2" by simp
  have d: "stdout demo_world = []" by (simp add: demo_world_def)
  have c: "[''ACS_CONNECTION_STRING'' \<mapsto> ''cs''] ''ACS_CONNECTION_STRING'' =
             Some (CHR ''c'' # ''s'') \<and>
           EmailClient_from_connection_string demo_platform (CHR ''c'' # ''s'') =
             Inr (EmailClient ''cs'') \<and>
           stdout_error demo_world (sending_line ([''test_email.py'', ''a@b.c''] ! 1)) = None"
    by (simp add: demo_platform_def demo_world_def)
  have first: "test_email_main demo_platform [''ACS_CONNECTION_STRING'' \<mapsto> ''cs'']
       [''test_email.py''] demo_world =
     (Inr 1, demo_world\<lparr>stdout := [''Usage: python test_email.py <recipient_email>'',
                                    ''Example: python test_email.py your.email@example.com'']\<rparr>)"
    using a d test_email_usage [of "[''test_email.py'']" demo_platform
         "[''ACS_CONNECTION_STRING'' \<mapsto> ''cs'']" demo_world]
    by simp
  have second: "Call_email_begin_send (EmailClient ''cs'') (test_email_message ''a@b.c'') \<in>
     set (calls (snd (test_email_main demo_platform [''ACS_CONNECTION_STRING'' \<mapsto> ''cs'']
                        [''test_email.py'', ''a@b.c''] demo_world)))"
    using b c test_email_usage [of "[''test_email.py'', ''a@b.c'']" demo_platform
         "[''ACS_CONNECTION_STRING'' \<mapsto> ''cs'']" demo_world "CHR ''c''" "''s''"
         "EmailClient ''cs''"]
    by fastforce
  show ?thesis using first second by (rule conjI)
qed

end
